theory Spec2Isabelle
  imports Complex_Main
begin

section \<open>Python values\<close>

text \<open>
  The integration passes untyped values (\<open>Any\<close>) from the cloud client through the
  status dictionary to the entities. A Python value is modelled by its type and content:
  \<open>None\<close>, \<open>bool\<close>, \<open>int\<close> (unbounded), \<open>float\<close>, \<open>str\<close>, \<open>dict\<close> with string keys,
  and \<open>PObj n b\<close> for an object of any other type (a list, a tuple, bytes, an instance of
  a class): \<open>n\<close> names its class under \<open>==\<close>, so that two such objects are equal exactly
  when they carry the same \<open>n\<close>, and \<open>b\<close> is its truth value (an empty list is falsy).
  A float is a finite rational, an infinity (\<open>FInf True\<close> is the positive one) or NaN;
  both zeros are \<open>FFin 0\<close>. A \<open>str\<close> is a list of characters, each standing for a code
  point below 256. A \<open>dict\<close> is an association list read with \<open>map_of\<close>; the lists
  that stand for dictionaries have distinct keys.
\<close>

datatype pyfloat = FNaN | FInf bool | FFin rat

datatype pyval =
    PNone
  | PBool bool
  | PInt int
  | PFloat pyfloat
  | PStr string
  | PDict "(string \<times> pyval) list"
  | PObj nat bool

type_synonym pydict = "(string \<times> pyval) list"

text \<open>\<open>d.get(k)\<close> and \<open>d.get(k, default)\<close>.\<close>

definition dict_get_default :: "pydict \<Rightarrow> string \<Rightarrow> pyval \<Rightarrow> pyval" where
  "dict_get_default d k dflt = (case map_of d k of None \<Rightarrow> dflt | Some v \<Rightarrow> v)"

definition dict_get :: "pydict \<Rightarrow> string \<Rightarrow> pyval" where
  "dict_get d k = dict_get_default d k PNone"

text \<open>Truth value of an object, as \<open>not\<close>, \<open>or\<close> and \<open>if\<close> test it.\<close>

fun float_ne_zero :: "pyfloat \<Rightarrow> bool" where
  "float_ne_zero (FFin r) = (r \<noteq> 0)"
| "float_ne_zero (FInf s) = True"
| "float_ne_zero FNaN = True"

fun truthy :: "pyval \<Rightarrow> bool" where
  "truthy PNone = False"
| "truthy (PBool b) = b"
| "truthy (PInt i) = (i \<noteq> 0)"
| "truthy (PFloat f) = float_ne_zero f"
| "truthy (PStr s) = (s \<noteq> [])"
| "truthy (PDict d) = (d \<noteq> [])"
| "truthy (PObj n b) = b"

text \<open>
  Python's \<open>==\<close>. Numbers compare by value across \<open>bool\<close>, \<open>int\<close> and \<open>float\<close>
  (\<open>True == 1 == 1.0\<close>), NaN equals nothing, a \<open>str\<close> equals only an equal \<open>str\<close>,
  dictionaries compare as mappings, other objects by their class under \<open>==\<close>.
\<close>

fun num_of :: "pyval \<Rightarrow> pyfloat option" where
  "num_of (PBool b) = Some (FFin (if b then 1 else 0))"
| "num_of (PInt i) = Some (FFin (of_int i))"
| "num_of (PFloat f) = Some f"
| "num_of _ = None"

fun float_eq :: "pyfloat \<Rightarrow> pyfloat \<Rightarrow> bool" where
  "float_eq (FFin a) (FFin b) = (a = b)"
| "float_eq (FInf s) (FInf t) = (s = t)"
| "float_eq _ _ = False"

fun py_eq :: "pyval \<Rightarrow> pyval \<Rightarrow> bool" where
  "py_eq (PDict d) (PDict e) =
     (set (map fst d) = set (map fst e) \<and>
      list_all (\<lambda>(k, x). case map_of e k of None \<Rightarrow> False | Some y \<Rightarrow> py_eq x y) d)"
| "py_eq PNone PNone = True"
| "py_eq (PStr s) (PStr t) = (s = t)"
| "py_eq (PObj m a) (PObj n b) = (m = n)"
| "py_eq x y =
     (case num_of x of
        None \<Rightarrow> False
      | Some a \<Rightarrow> (case num_of y of None \<Rightarrow> False | Some b \<Rightarrow> float_eq a b))"

text \<open>\<open>v in xs\<close> for a list \<open>xs\<close> of strings: some element equals \<open>v\<close>.\<close>

definition py_in :: "pyval \<Rightarrow> string list \<Rightarrow> bool" where
  "py_in v xs = list_ex (\<lambda>x. py_eq v (PStr x)) xs"

text \<open>
  \<open>str.strip()\<close> removes leading and trailing whitespace, \<open>str.lower()\<close> maps each
  cased character to its lowercase form. Below code point 256 the whitespace characters
  are U+0009..U+000D, U+001C..U+0020, U+0085 and U+00A0, and the uppercase ones are
  A..Z and U+00C0..U+00DE without U+00D7, each 32 below its lowercase form.
\<close>

definition isspace :: "char \<Rightarrow> bool" where
  "isspace c = (let n = (of_char c :: nat) in
     (9 \<le> n \<and> n \<le> 13) \<or> (28 \<le> n \<and> n \<le> 32) \<or> n = 133 \<or> n = 160)"

definition strip :: "string \<Rightarrow> string" where
  "strip s = rev (dropWhile isspace (rev (dropWhile isspace s)))"

definition lower_char :: "char \<Rightarrow> char" where
  "lower_char c = (let n = (of_char c :: nat) in
     if (65 \<le> n \<and> n \<le> 90) \<or> (192 \<le> n \<and> n \<le> 222 \<and> n \<noteq> 215)
     then char_of (n + 32) else c)"

definition lower :: "string \<Rightarrow> string" where
  "lower s = map lower_char s"

text \<open>
  The exceptions the code names in its handlers. \<open>OtherException\<close> is any other subclass
  of \<open>Exception\<close> (a network error of the client library, say).
\<close>

datatype exn =
    KeyError
  | AttributeError
  | ValueError
  | RuntimeError
  | ConfigEntryNotReady
  | OtherException

section \<open>api.py: the API client\<close>

definition DEFAULT_DOOR_LOCK_NO :: int where
  "DEFAULT_DOOR_LOCK_NO = 2"

definition DEFAULT_GATE_LOCK_NO :: int where
  "DEFAULT_GATE_LOCK_NO = 1"

definition REGION_URLS :: "(string \<times> string) list" where
  "REGION_URLS =
     [(''eu'', ''apiieu.ezvizlife.com''),
      (''us'', ''apiisa.ezvizlife.com''),
      (''cn'', ''apiicn.ezvizlife.com''),
      (''as'', ''apiias.ezvizlife.com''),
      (''sa'', ''apiisa.ezvizlife.com''),
      (''ru'', ''apirus.ezvizru.com'')]"

text \<open>
  The fields of \<open>Hp7Api\<close>. \<open>client\<close> tells whether \<open>self._client\<close> holds an
  \<open>EzvizClient\<close> (an object, so truthy) or \<open>None\<close>.
\<close>

record Hp7Api =
  username :: string
  password :: "string option"
  region :: string
  token :: "pydict option"
  client :: bool
  url :: string
  supports_door :: bool
  supports_gate :: bool

text \<open>
  \<open>EzvizClient\<close> and \<open>EzvizCamera\<close> (package \<open>pylocalapi\<close>) talk to the vendor's cloud.
  What each of their calls does is an input of the model: it returns a value or raises.
  \<open>camera_status\<close> stands for \<open>EzvizCamera(client, serial).status(refresh=True)\<close>.
\<close>

record cloud =
  new_client :: "exn option"
  client_login :: "exn + pydict option"
  remote_unlock :: "string \<Rightarrow> pyval \<Rightarrow> int \<Rightarrow> exn option"
  get_device_infos :: "string \<Rightarrow> exn + pyval"
  camera_status :: "string \<Rightarrow> exn + pyval"

text \<open>\<open>Hp7Api.__init__\<close>: \<open>REGION_URLS.get(region, REGION_URLS["eu"])\<close>.\<close>

definition Hp7Api_init :: "string \<Rightarrow> string option \<Rightarrow> string \<Rightarrow> pydict option \<Rightarrow> exn + Hp7Api" where
  "Hp7Api_init usern passw reg tok =
     (case map_of REGION_URLS ''eu'' of
        None \<Rightarrow> Inl KeyError
      | Some eu \<Rightarrow>
          Inr \<lparr>username = usern, password = passw, region = reg, token = tok,
               client = False,
               url = (case map_of REGION_URLS reg of None \<Rightarrow> eu | Some u \<Rightarrow> u),
               supports_door = True, supports_gate = True\<rparr>)"

text \<open>\<open>not self._token\<close>: the token is \<open>None\<close> or an empty dictionary.\<close>

definition token_falsy :: "pydict option \<Rightarrow> bool" where
  "token_falsy t = (case t of None \<Rightarrow> True | Some d \<Rightarrow> d = [])"

text \<open>
  A method of \<open>Hp7Api\<close> returns its result, or the exception it raises, together with
  the object's fields as the call leaves them.
\<close>

definition login_and_store_token :: "cloud \<Rightarrow> Hp7Api \<Rightarrow> (exn + unit) \<times> Hp7Api" where
  "login_and_store_token cl a =
     (if \<not> client a then (Inl RuntimeError, a)
      else (case client_login cl of
              Inr t \<Rightarrow> (Inr (), a\<lparr>token := t\<rparr>)
            | Inl e \<Rightarrow>
                (if e = ValueError \<or> e = KeyError then (Inl ValueError, a)
                 else (Inl e, a))))"

definition ensure_client :: "cloud \<Rightarrow> Hp7Api \<Rightarrow> (exn + unit) \<times> Hp7Api" where
  "ensure_client cl a =
     (if client a then (Inr (), a)
      else (case new_client cl of
              Some e \<Rightarrow> (Inl RuntimeError, a)
            | None \<Rightarrow>
                (let a1 = a\<lparr>client := True\<rparr> in
                 if token_falsy (token a1) then
                   (case login_and_store_token cl a1 of
                      (Inl e, a2) \<Rightarrow> (Inl RuntimeError, a2)
                    | (Inr u, a2) \<Rightarrow> (Inr (), a2))
                 else (Inr (), a1))))"

definition login :: "cloud \<Rightarrow> Hp7Api \<Rightarrow> (exn + bool) \<times> Hp7Api" where
  "login cl a =
     (case ensure_client cl a of
        (Inl e, a1) \<Rightarrow> (Inl e, a1)
      | (Inr u, a1) \<Rightarrow> (Inr True, a1))"

text \<open>
  \<open>detect_capabilities\<close>: the probe is \<open>self._client.get_device_infos(serial).get(serial, {})\<close>;
  \<open>.get\<close> on a result that is no dictionary raises \<open>AttributeError\<close>. The handler catches
  \<open>KeyError\<close>, \<open>AttributeError\<close> and \<open>ValueError\<close>.
\<close>

definition probe :: "cloud \<Rightarrow> string \<Rightarrow> exn + pyval" where
  "probe cl ser =
     (case get_device_infos cl ser of
        Inl e \<Rightarrow> Inl e
      | Inr (PDict infos) \<Rightarrow> Inr (dict_get_default infos ser (PDict []))
      | Inr other \<Rightarrow> Inl AttributeError)"

definition detect_capabilities :: "cloud \<Rightarrow> Hp7Api \<Rightarrow> string \<Rightarrow> (exn + unit) \<times> Hp7Api" where
  "detect_capabilities cl a ser =
     (case ensure_client cl a of
        (Inl e, a1) \<Rightarrow> (Inl e, a1)
      | (Inr u, a1) \<Rightarrow>
          (let defaults = a1\<lparr>supports_door := True, supports_gate := True\<rparr> in
           if client a1 then
             (case probe cl ser of
                Inr dev \<Rightarrow> (Inr (), defaults)
              | Inl e \<Rightarrow>
                  (if e = KeyError \<or> e = AttributeError \<or> e = ValueError
                   then (Inr (), defaults)
                   else (Inl e, a1)))
           else (Inr (), defaults)))"

text \<open>
  The unlock commands. The calls of \<open>remote_unlock\<close> that reach the client are logged,
  in order, as (serial, user id, lock number).
\<close>

type_synonym unlock_call = "string \<times> pyval \<times> int"

definition user_id_of :: "Hp7Api \<Rightarrow> pyval" where
  "user_id_of a =
     (let u = dict_get (case token a of None \<Rightarrow> [] | Some d \<Rightarrow> d) ''username''
      in if truthy u then u else PStr (username a))"

definition try_unlock ::
  "cloud \<Rightarrow> string \<Rightarrow> int \<Rightarrow> Hp7Api \<times> unlock_call list \<Rightarrow> (exn + bool) \<times> Hp7Api \<times> unlock_call list"
where
  "try_unlock cl ser lock_no st =
     (case st of (a, calls) \<Rightarrow>
       (case ensure_client cl a of
          (Inl e, a1) \<Rightarrow> (Inl e, a1, calls)
        | (Inr u, a1) \<Rightarrow>
            (if token_falsy (token a1) \<or> \<not> client a1 then (Inr False, a1, calls)
             else
               (let user_id = user_id_of a1;
                    calls1 = calls @ [(ser, user_id, lock_no)]
                in case remote_unlock cl ser user_id lock_no of
                     None \<Rightarrow> (Inr True, a1, calls1)
                   | Some e \<Rightarrow> (Inr False, a1, calls1)))))"

text \<open>\<open>x or y\<close> on two attempts: the second runs only when the first returned \<open>False\<close>.\<close>

definition unlock_door ::
  "cloud \<Rightarrow> string \<Rightarrow> Hp7Api \<times> unlock_call list \<Rightarrow> (exn + bool) \<times> Hp7Api \<times> unlock_call list"
where
  "unlock_door cl ser st =
     (case try_unlock cl ser DEFAULT_DOOR_LOCK_NO st of
        (Inl e, st1) \<Rightarrow> (Inl e, st1)
      | (Inr True, st1) \<Rightarrow> (Inr True, st1)
      | (Inr False, st1) \<Rightarrow> try_unlock cl ser DEFAULT_GATE_LOCK_NO st1)"

definition unlock_gate ::
  "cloud \<Rightarrow> string \<Rightarrow> Hp7Api \<times> unlock_call list \<Rightarrow> (exn + bool) \<times> Hp7Api \<times> unlock_call list"
where
  "unlock_gate cl ser st =
     (case try_unlock cl ser DEFAULT_GATE_LOCK_NO st of
        (Inl e, st1) \<Rightarrow> (Inl e, st1)
      | (Inr True, st1) \<Rightarrow> (Inr True, st1)
      | (Inr False, st1) \<Rightarrow> try_unlock cl ser DEFAULT_DOOR_LOCK_NO st1)"

text \<open>
  \<open>get_status\<close>. \<open>status_fields\<close> is the body of the \<open>try\<close> after the status arrived:
  a \<open>.get\<close> on a value that is no dictionary raises \<open>AttributeError\<close>. The handler
  catches every exception and returns the empty dictionary.
\<close>

definition status_fields :: "pyval \<Rightarrow> exn + pydict" where
  "status_fields cam_status =
     (case cam_status of
        PDict cs \<Rightarrow>
          (case dict_get_default cs ''WIFI'' (PDict []) of
             PDict wifi_info \<Rightarrow>
               Inr [(''name'', dict_get cs ''name''),
                    (''version'', dict_get cs ''version''),
                    (''upgrade_available'', dict_get cs ''upgrade_available''),
                    (''status'', dict_get cs ''status''),
                    (''wan_ip'', dict_get cs ''wan_ip''),
                    (''pir_status'', dict_get cs ''PIR_Status''),
                    (''motion'', dict_get cs ''Motion_Trigger''),
                    (''seconds_last_trigger'', dict_get cs ''Seconds_Last_Trigger''),
                    (''last_alarm_time'', dict_get cs ''last_alarm_time''),
                    (''last_alarm_pic'', dict_get cs ''last_alarm_pic''),
                    (''alarm_name'', dict_get cs ''last_alarm_type_name''),
                    (''ssid'', dict_get wifi_info ''ssid''),
                    (''signal'', dict_get wifi_info ''signal''),
                    (''local_ip'',
                       (let ip = dict_get cs ''local_ip''
                        in if truthy ip then ip else dict_get wifi_info ''address''))]
           | other \<Rightarrow> Inl AttributeError)
      | other \<Rightarrow> Inl AttributeError)"

definition get_status :: "cloud \<Rightarrow> Hp7Api \<Rightarrow> string \<Rightarrow> (exn + pydict) \<times> Hp7Api" where
  "get_status cl a ser =
     (case ensure_client cl a of
        (Inl e, a1) \<Rightarrow> (Inl e, a1)
      | (Inr u, a1) \<Rightarrow>
          (if \<not> client a1 then (Inr [], a1)
           else (case camera_status cl ser of
                   Inl e \<Rightarrow> (Inr [], a1)
                 | Inr cam_status \<Rightarrow>
                     (case status_fields cam_status of
                        Inl e \<Rightarrow> (Inr [], a1)
                      | Inr snapshot \<Rightarrow> (Inr snapshot, a1)))))"






section \<open>coordinator.py and __init__.py: polling\<close>

record Hp7Coordinator =
  api :: Hp7Api
  serial :: string
  data :: "pydict option"
  last_update_success :: bool

definition Hp7Coordinator_init :: "Hp7Api \<Rightarrow> string \<Rightarrow> Hp7Coordinator" where
  "Hp7Coordinator_init a ser = \<lparr>api = a, serial = ser, data = None, last_update_success = True\<rparr>"

text \<open>\<open>Hp7Coordinator._async_update_data\<close>: runs \<open>api.get_status(serial)\<close>.\<close>

definition async_update_data :: "cloud \<Rightarrow> Hp7Coordinator \<Rightarrow> (exn + pydict) \<times> Hp7Api" where
  "async_update_data cl c = get_status cl (api c) (serial c)"

text \<open>
  Modelled from the spec: the refresh of the host framework's \<open>DataUpdateCoordinator\<close>,
  the base class of \<open>Hp7Coordinator\<close>, which is not part of the repository. When the
  update returns, its result replaces the stored snapshot; when it raises, the stored
  snapshot is retained and nothing is raised; the first refresh raises
  \<open>ConfigEntryNotReady\<close> when the update raises.
\<close>

definition async_refresh :: "cloud \<Rightarrow> Hp7Coordinator \<Rightarrow> Hp7Coordinator" where
  "async_refresh cl c =
     (case async_update_data cl c of
        (Inl e, a1) \<Rightarrow> c\<lparr>api := a1, last_update_success := False\<rparr>
      | (Inr d, a1) \<Rightarrow> c\<lparr>api := a1, data := Some d, last_update_success := True\<rparr>)"

definition async_config_entry_first_refresh :: "cloud \<Rightarrow> Hp7Coordinator \<Rightarrow> exn + Hp7Coordinator" where
  "async_config_entry_first_refresh cl c =
     (case async_update_data cl c of
        (Inl e, a1) \<Rightarrow> Inl ConfigEntryNotReady
      | (Inr d, a1) \<Rightarrow> Inr (c\<lparr>api := a1, data := Some d, last_update_success := True\<rparr>))"

text \<open>
  \<open>async_setup_entry\<close> of \<open>__init__.py\<close>, up to the first refresh: every exception of
  the login, of the capability detection and of the first refresh becomes
  \<open>ConfigEntryNotReady\<close>.
\<close>

definition async_setup_entry ::
  "cloud \<Rightarrow> string \<Rightarrow> string \<Rightarrow> string \<Rightarrow> string \<Rightarrow> pydict option \<Rightarrow> exn + Hp7Coordinator"
where
  "async_setup_entry cl usern passw reg ser tok =
     (case Hp7Api_init usern (Some passw) reg tok of
        Inl e \<Rightarrow> Inl ConfigEntryNotReady
      | Inr a0 \<Rightarrow>
          (case login cl a0 of
             (Inl e, a1) \<Rightarrow> Inl ConfigEntryNotReady
           | (Inr ok, a1) \<Rightarrow>
               (case detect_capabilities cl a1 ser of
                  (Inl e, a2) \<Rightarrow> Inl ConfigEntryNotReady
                | (Inr u, a2) \<Rightarrow>
                    (case async_config_entry_first_refresh cl (Hp7Coordinator_init a2 ser) of
                       Inl e \<Rightarrow> Inl ConfigEntryNotReady
                     | Inr c \<Rightarrow> Inr c))))"

text \<open>\<open>self.coordinator.data or {}\<close>, as every entity reads the snapshot.\<close>

definition data_or_empty :: "pydict option \<Rightarrow> pydict" where
  "data_or_empty d = (case d of None \<Rightarrow> [] | Some x \<Rightarrow> x)"

section \<open>binary_sensor.py\<close>

definition ALARM_FIELD :: string where
  "ALARM_FIELD = ''alarm_name''"

definition ALARM_TIME_FIELD :: string where
  "ALARM_TIME_FIELD = ''last_alarm_time''"

definition PULSE_SECONDS :: int where
  "PULSE_SECONDS = 3"

text \<open>Each entry: key in the coordinator data, translation key, device class.\<close>

definition SIMPLE_MAP :: "(string \<times> string \<times> string) list" where
  "SIMPLE_MAP = [(''Motion_Trigger'', ''motion_trigger'', ''motion'')]"

text \<open>Each entry: alarm names to match, translation key, device class, icon.\<close>

definition ALARM_MAP :: "(string list \<times> string \<times> string option \<times> string) list" where
  "ALARM_MAP =
     [([''Smart Detection Alarm''], ''smart_detection_alarm'', None, ''mdi:run''),
      ([''Intelligent Detection Alarm''], ''intelligent_detection_alarm'', None,
         ''mdi:account-search''),
      ([''Your doorbell is ringing''], ''doorbell_ringing'', None, ''mdi:doorbell''),
      ([''EZVIZ app open the gate'', ''Monitor open the gate''], ''gate_open'', None,
         ''mdi:gate-open''),
      ([''EZVIZ app unlock the lock'', ''Monitor unlock the lock''], ''unlock_lock'', None,
         ''mdi:lock-open-variant'')]"

text \<open>\<open>_to_bool\<close>: the tests in the order of the source; a \<open>bool\<close> is tested before \<open>int\<close>.\<close>

fun to_bool :: "pyval \<Rightarrow> bool" where
  "to_bool (PBool b) = b"
| "to_bool PNone = False"
| "to_bool (PInt i) = (i \<noteq> 0)"
| "to_bool (PFloat f) = float_ne_zero f"
| "to_bool (PStr s) = (lower (strip s) \<in> set [''1'', ''true'', ''on'', ''yes'', ''y''])"
| "to_bool (PDict d) = False"
| "to_bool (PObj n b) = False"

text \<open>\<open>Hp7BinarySimple.is_on\<close> of the sensor with the given key.\<close>

definition Hp7BinarySimple_is_on :: "Hp7Coordinator \<Rightarrow> string \<Rightarrow> bool" where
  "Hp7BinarySimple_is_on c key = to_bool (dict_get (data_or_empty (data c)) key)"

text \<open>
  \<open>Hp7BinaryAlarm\<close>. A time is a UTC instant in seconds (a \<open>datetime\<close> counts whole
  microseconds, so a rational number). \<open>prev_alarm_time\<close> starts as \<open>None\<close>;
  \<open>off_unsub\<close> is the instant the pending switch-off callback is due, if one is pending.
\<close>

type_synonym utc = rat

record Hp7BinaryAlarm =
  match_values :: "string list"
  last_trigger :: "utc option"
  prev_alarm_time :: pyval
  off_unsub :: "utc option"

definition Hp7BinaryAlarm_init :: "string list \<Rightarrow> Hp7BinaryAlarm" where
  "Hp7BinaryAlarm_init mv =
     \<lparr>match_values = mv, last_trigger = None, prev_alarm_time = PNone, off_unsub = None\<rparr>"

definition Hp7BinaryAlarm_is_on :: "utc \<Rightarrow> Hp7BinaryAlarm \<Rightarrow> bool" where
  "Hp7BinaryAlarm_is_on now s =
     (case last_trigger s of
        None \<Rightarrow> False
      | Some t \<Rightarrow> (let delta = now - t in delta < of_int PULSE_SECONDS))"

text \<open>A pending callback is cancelled and a new one is set \<open>PULSE_SECONDS\<close> ahead.\<close>

definition schedule_state_update :: "utc \<Rightarrow> Hp7BinaryAlarm \<Rightarrow> Hp7BinaryAlarm" where
  "schedule_state_update now s = s\<lparr>off_unsub := Some (now + of_int PULSE_SECONDS)\<rparr>"

text \<open>The test of \<open>_handle_coordinator_update\<close> on the snapshot it is given.\<close>

definition new_alarm :: "Hp7BinaryAlarm \<Rightarrow> pydict option \<Rightarrow> bool" where
  "new_alarm s d =
     (let current_alarm = dict_get (data_or_empty d) ALARM_FIELD;
          current_alarm_time = dict_get (data_or_empty d) ALARM_TIME_FIELD
      in py_in current_alarm (match_values s)
         \<and> current_alarm_time \<noteq> PNone
         \<and> \<not> py_eq current_alarm_time (prev_alarm_time s))"

definition handle_coordinator_update :: "utc \<Rightarrow> pydict option \<Rightarrow> Hp7BinaryAlarm \<Rightarrow> Hp7BinaryAlarm" where
  "handle_coordinator_update now d s =
     (if new_alarm s d then
        schedule_state_update now
          (s\<lparr>prev_alarm_time := dict_get (data_or_empty d) ALARM_TIME_FIELD,
             last_trigger := Some now\<rparr>)
      else s)"

text \<open>
  A run of the sensor: the coordinator delivers snapshots one after another, each at its
  instant.
\<close>

fun deliver :: "Hp7BinaryAlarm \<Rightarrow> (utc \<times> pydict option) list \<Rightarrow> Hp7BinaryAlarm" where
  "deliver s [] = s"
| "deliver s ((now, d) # rest) = deliver (handle_coordinator_update now d s) rest"


section \<open>The pulse as the specification describes it\<close>

text \<open>
  The specification's state machine for one alarm category: a snapshot starts a pulse
  when its alarm name is in the category's match set and its alarm time differs from the
  alarm time consumed last; the snapshot's alarm time is then the consumed one. The
  output at an instant is true from the start of the latest pulse until \<open>PULSE_SECONDS\<close>
  later. \<open>claimed_condition\<close> is the condition as the specification words it,
  \<open>guarded_condition\<close> adds that the alarm time is not null.
\<close>

definition claimed_condition :: "string list \<Rightarrow> pyval \<Rightarrow> pydict option \<Rightarrow> bool" where
  "claimed_condition mv consumed d =
     (py_in (dict_get (data_or_empty d) ALARM_FIELD) mv
      \<and> \<not> py_eq (dict_get (data_or_empty d) ALARM_TIME_FIELD) consumed)"

definition guarded_condition :: "string list \<Rightarrow> pyval \<Rightarrow> pydict option \<Rightarrow> bool" where
  "guarded_condition mv consumed d =
     (claimed_condition mv consumed d \<and> dict_get (data_or_empty d) ALARM_TIME_FIELD \<noteq> PNone)"

fun pulse_start ::
  "(pyval \<Rightarrow> pydict option \<Rightarrow> bool) \<Rightarrow> pyval \<Rightarrow> utc option \<Rightarrow> (utc \<times> pydict option) list \<Rightarrow> utc option"
where
  "pulse_start cond consumed start [] = start"
| "pulse_start cond consumed start ((t, d) # rest) =
     (if cond consumed d
      then pulse_start cond (dict_get (data_or_empty d) ALARM_TIME_FIELD) (Some t) rest
      else pulse_start cond consumed start rest)"

definition pulse_output ::
  "(pyval \<Rightarrow> pydict option \<Rightarrow> bool) \<Rightarrow> (utc \<times> pydict option) list \<Rightarrow> utc \<Rightarrow> bool"
where
  "pulse_output cond evs now =
     (case pulse_start cond PNone None evs of
        None \<Rightarrow> False
      | Some t \<Rightarrow> t \<le> now \<and> now < t + of_int PULSE_SECONDS)"

section \<open>Example inputs\<close>

text \<open>A cloud that answers every call, and the same cloud with a failing status fetch.\<close>

definition cloud_up :: "pyval \<Rightarrow> cloud" where
  "cloud_up cam_status =
     \<lparr>new_client = None,
      client_login = Inr (Some [(''username'', PStr ''owner'')]),
      remote_unlock = (\<lambda>ser user_id lock_no. None),
      get_device_infos = (\<lambda>ser. Inr (PDict [])),
      camera_status = (\<lambda>ser. Inr cam_status)\<rparr>"

definition cloud_down :: cloud where
  "cloud_down = (cloud_up PNone)\<lparr>camera_status := (\<lambda>ser. Inl OtherException)\<rparr>"

text \<open>A cloud on which the login fails.\<close>

definition cloud_unreachable :: cloud where
  "cloud_unreachable = (cloud_up PNone)\<lparr>client_login := Inl OtherException\<rparr>"

text \<open>A cloud on which unlocking works for lock number 1 only.\<close>

definition cloud_lock1 :: cloud where
  "cloud_lock1 =
     (cloud_up PNone)\<lparr>remote_unlock :=
        (\<lambda>ser user_id lock_no. if lock_no = 1 then None else Some ValueError)\<rparr>"

text \<open>An API client after a login that stored a token.\<close>

definition api_ready :: Hp7Api where
  "api_ready =
     \<lparr>username = ''owner'', password = Some ''secret'', region = ''eu'',
      token = Some [(''username'', PStr ''owner'')], client = True,
      url = ''apiieu.ezvizlife.com'', supports_door = True, supports_gate = True\<rparr>"

text \<open>An API client on which no method has run yet.\<close>

definition api_fresh :: Hp7Api where
  "api_fresh = api_ready\<lparr>token := None, client := False\<rparr>"

text \<open>A status that lacks most of its fields, the whole \<open>WIFI\<close> dictionary among them.\<close>

definition front_door_status :: pyval where
  "front_door_status = PDict [(''name'', PStr ''Front door''), (''Motion_Trigger'', PInt 1)]"

definition doorbell_snapshot :: "pyval \<Rightarrow> pydict option" where
  "doorbell_snapshot alarm_time =
     Some [(''last_alarm_time'', alarm_time), (''alarm_name'', PStr ''Your doorbell is ringing'')]"

section \<open>Python values: equality and membership\<close>

lemma py_eq_PStr: "py_eq v (PStr x) = (v = PStr x)"
  by (cases v) auto

lemma py_in_iff: "py_in v xs = (\<exists>x\<in>set xs. v = PStr x)"
  by (simp add: py_in_def list_ex_iff py_eq_PStr)

section \<open>The alarm pulse\<close>

lemma new_alarm_guarded:
  "new_alarm s d = guarded_condition (match_values s) (prev_alarm_time s) d"
  by (auto simp: new_alarm_def guarded_condition_def claimed_condition_def Let_def)

lemma last_trigger_deliver:
  "last_trigger (deliver s evs) =
     pulse_start (guarded_condition (match_values s)) (prev_alarm_time s) (last_trigger s) evs"
proof (induction evs arbitrary: s)
  case Nil
  show ?case by simp
next
  case (Cons ev evs)
  obtain t d where ev: "ev = (t, d)" by (cases ev)
  show ?case
    unfolding ev
    by (simp add: Cons.IH handle_coordinator_update_def schedule_state_update_def
        new_alarm_guarded)
qed

lemma pulse_start_bound:
  assumes "list_all (\<lambda>(t, d). t \<le> now) evs"
    and "\<And>t0. start = Some t0 \<Longrightarrow> t0 \<le> now"
    and "pulse_start cond consumed start evs = Some t"
  shows "t \<le> now"
  using assms
proof (induction evs arbitrary: consumed start)
  case Nil
  then show ?case by simp
next
  case (Cons ev evs)
  obtain t1 d where ev: "ev = (t1, d)" by (cases ev)
  from Cons.prems(1) have t1: "t1 \<le> now" and rest: "list_all (\<lambda>(t, d). t \<le> now) evs"
    by (simp_all add: ev)
  show ?case
  proof (cases "cond consumed d")
    case True
    with Cons.prems(3)
    have "pulse_start cond (dict_get (data_or_empty d) ALARM_TIME_FIELD) (Some t1) evs = Some t"
      by (simp add: ev)
    with rest t1 show ?thesis
      by (intro Cons.IH [where start = "Some t1"]) auto
  next
    case False
    with Cons.prems(3) have "pulse_start cond consumed start evs = Some t"
      by (simp add: ev)
    with rest Cons.prems(2) show ?thesis
      by (intro Cons.IH [where start = start]) auto
  qed
qed

text \<open>
  C1 (amended). For every sequence of snapshots delivered to an alarm sensor and every
  instant \<open>now\<close> not before the deliveries, the sensor is on at \<open>now\<close> exactly when a
  pulse has started and \<open>now\<close> lies in the \<open>PULSE_SECONDS\<close> from the start of the latest
  one, where a snapshot starts a pulse when its alarm name is in the match set, its
  alarm time is not null and its alarm time differs from the one consumed last. A
  snapshot whose alarm time equals the consumed one leaves the sensor as it is.
\<close>

theorem alarm_pulse_output:
  assumes "list_all (\<lambda>(t, d). t \<le> now) evs"
  shows "Hp7BinaryAlarm_is_on now (deliver (Hp7BinaryAlarm_init mv) evs) =
           pulse_output (guarded_condition mv) evs now
       \<and> (py_eq (dict_get (data_or_empty d) ALARM_TIME_FIELD) (prev_alarm_time s)
            \<longrightarrow> handle_coordinator_update t d s = s)"
proof -
  have lt: "last_trigger (deliver (Hp7BinaryAlarm_init mv) evs) =
              pulse_start (guarded_condition mv) PNone None evs"
    by (simp add: last_trigger_deliver Hp7BinaryAlarm_init_def)
  have bound: "t0 \<le> now" if "pulse_start (guarded_condition mv) PNone None evs = Some t0" for t0
    using assms _ that by (rule pulse_start_bound) simp
  have out: "Hp7BinaryAlarm_is_on now (deliver (Hp7BinaryAlarm_init mv) evs) =
               pulse_output (guarded_condition mv) evs now"
    using bound
    by (auto simp: Hp7BinaryAlarm_is_on_def pulse_output_def lt Let_def split: option.splits)
  have same: "py_eq (dict_get (data_or_empty d) ALARM_TIME_FIELD) (prev_alarm_time s)
                \<longrightarrow> handle_coordinator_update t d s = s"
    by (simp add: handle_coordinator_update_def new_alarm_def Let_def)
  from out same show ?thesis by simp
qed

theorem alarm_pulse_output_witness:
  "list_all (\<lambda>(t, d). t \<le> (7 / 2 :: utc))
     [(0, doorbell_snapshot (PStr ''2024-01-01 10:00:00'')),
      (2, doorbell_snapshot (PStr ''2024-01-01 10:00:00''))]
   \<and> \<not> Hp7BinaryAlarm_is_on (7 / 2)
         (deliver (Hp7BinaryAlarm_init [''Your doorbell is ringing''])
            [(0, doorbell_snapshot (PStr ''2024-01-01 10:00:00'')),
             (2, doorbell_snapshot (PStr ''2024-01-01 10:00:00''))])
   \<and> handle_coordinator_update 2 (doorbell_snapshot (PStr ''2024-01-01 10:00:00''))
         (deliver (Hp7BinaryAlarm_init [''Your doorbell is ringing''])
            [(0, doorbell_snapshot (PStr ''2024-01-01 10:00:00''))])
       = deliver (Hp7BinaryAlarm_init [''Your doorbell is ringing''])
           [(0, doorbell_snapshot (PStr ''2024-01-01 10:00:00''))]"
proof -
  let ?d = "doorbell_snapshot (PStr ''2024-01-01 10:00:00'')"
  let ?mv = "[''Your doorbell is ringing'']"
  let ?s1 = "deliver (Hp7BinaryAlarm_init ?mv) [(0, ?d)]"
  have h: "list_all (\<lambda>(t, d). t \<le> (7 / 2 :: utc)) [(0, ?d), (2, ?d)]"
    by simp
  have out: "pulse_output (guarded_condition ?mv) [(0, ?d), (2, ?d)] (7 / 2) = False"
    by code_simp
  have same: "py_eq (dict_get (data_or_empty ?d) ALARM_TIME_FIELD) (prev_alarm_time ?s1)"
    by code_simp
  note run = alarm_pulse_output [OF h, of ?mv ?d ?s1 2]
  from run [THEN conjunct1] out
  have off: "\<not> Hp7BinaryAlarm_is_on (7 / 2) (deliver (Hp7BinaryAlarm_init ?mv) [(0, ?d), (2, ?d)])"
    by (simp only: simp_thms)
  from run [THEN conjunct2] same
  have kept: "handle_coordinator_update 2 ?d ?s1 = ?s1"
    by (rule mp)
  from h off kept show ?thesis
    by blast
qed

text \<open>
  C1 as stated, without the test that the alarm time is not null, fails: after a
  doorbell alarm consumed at instant 0, a snapshot at instant 10 with the doorbell's
  alarm name and a null alarm time differs from the consumed time, yet the sensor stays
  off.
\<close>

theorem alarm_pulse_null_time_counterexample:
  "Hp7BinaryAlarm_is_on 11
      (deliver (Hp7BinaryAlarm_init [''Your doorbell is ringing''])
         [(0, doorbell_snapshot (PStr ''2024-01-01 10:00:00'')), (10, doorbell_snapshot PNone)])
    \<noteq> pulse_output (claimed_condition [''Your doorbell is ringing''])
         [(0, doorbell_snapshot (PStr ''2024-01-01 10:00:00'')), (10, doorbell_snapshot PNone)] 11"
  by code_simp


text \<open>
  C6. The alarm sensor is on exactly when \<open>last_trigger\<close> is set and less than
  \<open>PULSE_SECONDS\<close> have passed since; this holds in every state, and so after every
  delivery of snapshots. Reading does not change the state.
\<close>

theorem alarm_is_on_invariant:
  "Hp7BinaryAlarm_is_on now s =
     (last_trigger s \<noteq> None \<and> now - the (last_trigger s) < of_int PULSE_SECONDS)
   \<and> Hp7BinaryAlarm_is_on now (deliver s evs) =
       (last_trigger (deliver s evs) \<noteq> None
        \<and> now - the (last_trigger (deliver s evs)) < of_int PULSE_SECONDS)"
  by (simp add: Hp7BinaryAlarm_is_on_def Let_def split: option.splits)


section \<open>The API client\<close>

lemma ensure_client_ready: "client a \<Longrightarrow> ensure_client cl a = (Inr (), a)"
  by (simp add: ensure_client_def)

lemma ensure_client_success:
  "ensure_client cl a = (Inr (), a1) \<Longrightarrow> client a1"
  by (auto simp: ensure_client_def login_and_store_token_def Let_def
      split: if_splits option.splits sum.splits prod.splits)

lemma try_unlock_ready:
  assumes "client a" and "\<not> token_falsy (token a)"
  shows "try_unlock cl ser n (a, calls) =
           (case remote_unlock cl ser (user_id_of a) n of
              None \<Rightarrow> (Inr True, a, calls @ [(ser, user_id_of a, n)])
            | Some e \<Rightarrow> (Inr False, a, calls @ [(ser, user_id_of a, n)]))"
  using assms
  by (simp add: try_unlock_def ensure_client_ready Let_def)

text \<open>
  C4 (amended). On a client that is initialised and holds a non-empty token, the door
  action calls \<open>remote_unlock\<close> for lock 2 and, only when that call raised, for lock 1;
  the gate action for lock 1 and then lock 2. Each attempt is one call, the result is
  true exactly when a call returned, and nothing is raised.
\<close>

theorem unlock_dispatch:
  assumes "client a" and "\<not> token_falsy (token a)"
  shows "unlock_door cl ser (a, calls) =
           (let u = user_id_of a in
            if remote_unlock cl ser u 2 = None
              then (Inr True, a, calls @ [(ser, u, 2)])
            else if remote_unlock cl ser u 1 = None
              then (Inr True, a, calls @ [(ser, u, 2), (ser, u, 1)])
            else (Inr False, a, calls @ [(ser, u, 2), (ser, u, 1)]))
       \<and> unlock_gate cl ser (a, calls) =
           (let u = user_id_of a in
            if remote_unlock cl ser u 1 = None
              then (Inr True, a, calls @ [(ser, u, 1)])
            else if remote_unlock cl ser u 2 = None
              then (Inr True, a, calls @ [(ser, u, 1), (ser, u, 2)])
            else (Inr False, a, calls @ [(ser, u, 1), (ser, u, 2)]))"
proof -
  note attempt = try_unlock_ready [OF assms]
  have door: "unlock_door cl ser (a, calls) =
           (let u = user_id_of a in
            if remote_unlock cl ser u 2 = None
              then (Inr True, a, calls @ [(ser, u, 2)])
            else if remote_unlock cl ser u 1 = None
              then (Inr True, a, calls @ [(ser, u, 2), (ser, u, 1)])
            else (Inr False, a, calls @ [(ser, u, 2), (ser, u, 1)]))"
    by (cases "remote_unlock cl ser (user_id_of a) 2";
        cases "remote_unlock cl ser (user_id_of a) 1")
       (simp_all add: unlock_door_def attempt Let_def
          DEFAULT_DOOR_LOCK_NO_def DEFAULT_GATE_LOCK_NO_def)
  have gate: "unlock_gate cl ser (a, calls) =
           (let u = user_id_of a in
            if remote_unlock cl ser u 1 = None
              then (Inr True, a, calls @ [(ser, u, 1)])
            else if remote_unlock cl ser u 2 = None
              then (Inr True, a, calls @ [(ser, u, 1), (ser, u, 2)])
            else (Inr False, a, calls @ [(ser, u, 1), (ser, u, 2)]))"
    by (cases "remote_unlock cl ser (user_id_of a) 1";
        cases "remote_unlock cl ser (user_id_of a) 2")
       (simp_all add: unlock_gate_def attempt Let_def
          DEFAULT_DOOR_LOCK_NO_def DEFAULT_GATE_LOCK_NO_def)
  from door gate show ?thesis by simp
qed

theorem unlock_dispatch_witness:
  "client api_ready \<and> \<not> token_falsy (token api_ready)
   \<and> unlock_door cloud_lock1 ''BE1234567'' (api_ready, []) =
       (Inr True, api_ready,
        [(''BE1234567'', PStr ''owner'', 2), (''BE1234567'', PStr ''owner'', 1)])
   \<and> unlock_gate cloud_lock1 ''BE1234567'' (api_ready, []) =
       (Inr True, api_ready, [(''BE1234567'', PStr ''owner'', 1)])"
proof -
  have ready: "client api_ready" "\<not> token_falsy (token api_ready)"
    by (simp_all add: api_ready_def token_falsy_def)
  have user: "user_id_of api_ready = PStr ''owner''"
    by (simp add: user_id_of_def api_ready_def dict_get_def dict_get_default_def)
  show ?thesis
    using unlock_dispatch [OF ready, of cloud_lock1 "''BE1234567''" "[]"] ready
    by (simp add: user cloud_lock1_def cloud_up_def Let_def)
qed

text \<open>
  C4 as stated fails without the initialised client: on a client that has not logged in
  yet, \<open>ensure_client\<close> raises \<open>RuntimeError\<close> out of \<open>unlock_door\<close> when the login
  fails; and with a client but no token, both attempts return false without a call.
\<close>

theorem unlock_raises_counterexample:
  "fst (unlock_door cloud_unreachable ''BE1234567'' (api_fresh, [])) = Inl RuntimeError
   \<and> unlock_door (cloud_up PNone) ''BE1234567'' (api_ready\<lparr>token := None\<rparr>, []) =
       (Inr False, api_ready\<lparr>token := None\<rparr>, [])"
  by (simp add: unlock_door_def try_unlock_def ensure_client_def login_and_store_token_def
      cloud_unreachable_def cloud_up_def api_fresh_def api_ready_def token_falsy_def
      DEFAULT_DOOR_LOCK_NO_def DEFAULT_GATE_LOCK_NO_def)

text \<open>
  C8. When \<open>ensure_client\<close> returns and the probe returns or raises one of the caught
  exceptions, \<open>detect_capabilities\<close> returns with both flags true, and the state it
  leaves does not depend on the probe.
\<close>

theorem detect_capabilities_flags:
  assumes "ensure_client cl a = (Inr (), a1)"
    and "case probe cl ser of
           Inr dev \<Rightarrow> True
         | Inl e \<Rightarrow> e = KeyError \<or> e = AttributeError \<or> e = ValueError"
  shows "detect_capabilities cl a ser =
           (Inr (), a1\<lparr>supports_door := True, supports_gate := True\<rparr>)
       \<and> supports_door (snd (detect_capabilities cl a ser))
       \<and> supports_gate (snd (detect_capabilities cl a ser))"
proof -
  have "client a1" using assms(1) by (rule ensure_client_success)
  with assms show ?thesis
    by (auto simp: detect_capabilities_def Let_def split: sum.splits)
qed

theorem detect_capabilities_flags_witness:
  "ensure_client ((cloud_up PNone)\<lparr>get_device_infos := (\<lambda>ser. Inl KeyError)\<rparr>) api_ready
     = (Inr (), api_ready)
   \<and> probe ((cloud_up PNone)\<lparr>get_device_infos := (\<lambda>ser. Inl KeyError)\<rparr>) ''BE1234567''
       = Inl KeyError
   \<and> detect_capabilities ((cloud_up PNone)\<lparr>get_device_infos := (\<lambda>ser. Inl KeyError)\<rparr>)
       api_ready ''BE1234567'' = (Inr (), api_ready)
   \<and> detect_capabilities (cloud_up PNone) api_ready ''BE1234567'' = (Inr (), api_ready)"
proof -
  let ?cl = "(cloud_up PNone)\<lparr>get_device_infos := (\<lambda>ser. Inl KeyError)\<rparr>"
  have e: "ensure_client ?cl api_ready = (Inr (), api_ready)"
    by (simp add: ensure_client_def api_ready_def)
  have p: "probe ?cl ''BE1234567'' = Inl KeyError"
    by (simp add: probe_def cloud_up_def)
  have e2: "ensure_client (cloud_up PNone) api_ready = (Inr (), api_ready)"
    by (simp add: ensure_client_def api_ready_def)
  have p2: "probe (cloud_up PNone) ''BE1234567'' = Inr (PDict [])"
    by (simp add: probe_def cloud_up_def dict_get_default_def)
  have same: "api_ready\<lparr>supports_door := True, supports_gate := True\<rparr> = api_ready"
    by (simp add: api_ready_def)
  show ?thesis
    using detect_capabilities_flags [OF e, of "''BE1234567''"]
      detect_capabilities_flags [OF e2, of "''BE1234567''"] e p p2
    by (simp add: same)
qed

text \<open>
  C10. A region outside \<open>REGION_URLS\<close> does not make the constructor fail: the URL is
  the one of \<open>eu\<close>.
\<close>

theorem unknown_region_falls_back:
  assumes "reg \<notin> set (map fst REGION_URLS)"
  shows "\<exists>a. Hp7Api_init usern passw reg tok = Inr a \<and> url a = ''apiieu.ezvizlife.com''"
proof -
  from assms have "map_of REGION_URLS reg = None"
    by (simp add: map_of_eq_None_iff)
  then show ?thesis
    by (simp add: Hp7Api_init_def) (simp add: REGION_URLS_def)
qed

theorem unknown_region_falls_back_witness:
  "''uk'' \<notin> set (map fst REGION_URLS)
   \<and> (\<exists>a. Hp7Api_init ''owner'' (Some ''secret'') ''uk'' None = Inr a
          \<and> url a = ''apiieu.ezvizlife.com'')"
proof -
  have h: "''uk'' \<notin> set (map fst REGION_URLS)"
    by (simp add: REGION_URLS_def)
  from h unknown_region_falls_back [OF h] show ?thesis by simp
qed


section \<open>Simple binary sensors\<close>

text \<open>
  C9. \<open>_to_bool\<close> returns for every value, and returns true exactly for \<open>True\<close>, a
  non-zero \<open>int\<close> or \<open>float\<close>, and a string whose stripped, lowercased form is one of
  \<open>1\<close>, \<open>true\<close>, \<open>on\<close>, \<open>yes\<close>, \<open>y\<close>.
\<close>

theorem to_bool_true_iff:
  "to_bool v =
     (v = PBool True
      \<or> (\<exists>i. v = PInt i \<and> i \<noteq> 0)
      \<or> (\<exists>f. v = PFloat f \<and> f \<noteq> FFin 0)
      \<or> (\<exists>s. v = PStr s \<and> lower (strip s) \<in> {''1'', ''true'', ''on'', ''yes'', ''y''}))"
proof (cases v)
  case (PFloat f)
  then show ?thesis by (cases f) simp_all
qed simp_all

section \<open>The status dictionary\<close>

lemma get_status_ready:
  assumes "client a"
  shows "get_status cl a ser =
           (case camera_status cl ser of
              Inl e \<Rightarrow> (Inr [], a)
            | Inr cam_status \<Rightarrow>
                (case status_fields cam_status of
                   Inl e \<Rightarrow> (Inr [], a)
                 | Inr snapshot \<Rightarrow> (Inr snapshot, a)))"
  using assms by (simp add: get_status_def ensure_client_ready)






section \<open>Polling\<close>

lemma get_status_absorbs_fetch_error:
  assumes "client a" and "camera_status cl ser = Inl e"
  shows "get_status cl a ser = (Inr [], a)"
  by (simp add: get_status_ready [OF assms(1)] assms(2))

text \<open>
  Where the update raises, the refresh keeps the stored snapshot and the first refresh
  is reported as not ready.
\<close>

lemma refresh_keeps_snapshot_when_update_raises:
  assumes "async_update_data cl c = (Inl e, a1)"
  shows "data (async_refresh cl c) = data c
       \<and> async_config_entry_first_refresh cl c = Inl ConfigEntryNotReady"
  by (simp add: async_refresh_def async_config_entry_first_refresh_def assms)

text \<open>
  C2, at the failing inputs. The status fetch raises \<open>OtherException\<close> on a client that
  logged in. At startup, the first refresh then completes with the empty snapshot and
  the setup returns a coordinator instead of \<open>ConfigEntryNotReady\<close>. After a setup that
  stored the status of the front door, the next poll stores the empty snapshot as a
  successful update: the name read from it is \<open>None\<close>, not the one stored before.
\<close>

theorem fetch_failure_taken_for_success:
  "(case async_setup_entry cloud_down ''owner'' ''secret'' ''eu'' ''BE1234567'' None of
      Inl e \<Rightarrow> False
    | Inr c \<Rightarrow> data c = Some [] \<and> last_update_success c)
   \<and> (case async_setup_entry (cloud_up front_door_status)
              ''owner'' ''secret'' ''eu'' ''BE1234567'' None of
         Inl e \<Rightarrow> False
       | Inr c \<Rightarrow>
           dict_get (data_or_empty (data c)) ''name'' = PStr ''Front door''
           \<and> data (async_refresh cloud_down c) = Some []
           \<and> last_update_success (async_refresh cloud_down c)
           \<and> dict_get (data_or_empty (data (async_refresh cloud_down c))) ''name'' = PNone)"
  by code_simp

text \<open>
  C3, at the failing input. For the raw status \<open>{"Motion_Trigger": 1}\<close> the snapshot holds
  the value under the key \<open>motion\<close>, while the motion sensor of \<open>SIMPLE_MAP\<close> reads the key
  \<open>Motion_Trigger\<close>, finds nothing and is off.
\<close>

theorem motion_sensor_reads_wrong_key:
  "(case async_setup_entry (cloud_up (PDict [(''Motion_Trigger'', PInt 1)]))
           ''owner'' ''secret'' ''eu'' ''BE1234567'' None of
      Inl e \<Rightarrow> False
    | Inr c \<Rightarrow>
        dict_get (data_or_empty (data c)) ''motion'' = PInt 1
        \<and> map (\<lambda>(key, translation_key, device_class). Hp7BinarySimple_is_on c key) SIMPLE_MAP
            = [False])"
  by code_simp


section \<open>Alarm categories\<close>

lemma alarm_names_disjoint:
  assumes "i < length ALARM_MAP" and "j < length ALARM_MAP" and "i \<noteq> j"
  shows "set (fst (ALARM_MAP ! i)) \<inter> set (fst (ALARM_MAP ! j)) = {}"
proof -
  have len: "length ALARM_MAP = 5" by (simp add: ALARM_MAP_def)
  from assms(1) len have i: "i = 0 \<or> i = 1 \<or> i = 2 \<or> i = 3 \<or> i = 4" by arith
  from assms(2) len have j: "j = 0 \<or> j = 1 \<or> j = 2 \<or> j = 3 \<or> j = 4" by arith
  from i j assms(3) show ?thesis
    by (elim disjE) (simp_all add: ALARM_MAP_def)
qed

text \<open>
  C7. The match sets of two different entries of \<open>ALARM_MAP\<close> are disjoint, and no
  snapshot is a new alarm for the sensors of two different entries.
\<close>

theorem alarm_categories_disjoint:
  assumes "i < length ALARM_MAP" and "j < length ALARM_MAP" and "i \<noteq> j"
    and "match_values s1 = fst (ALARM_MAP ! i)"
    and "match_values s2 = fst (ALARM_MAP ! j)"
  shows "set (fst (ALARM_MAP ! i)) \<inter> set (fst (ALARM_MAP ! j)) = {}
       \<and> \<not> (new_alarm s1 d \<and> new_alarm s2 d)"
proof -
  have disj: "set (fst (ALARM_MAP ! i)) \<inter> set (fst (ALARM_MAP ! j)) = {}"
    using assms(1-3) by (rule alarm_names_disjoint)
  have "\<not> (new_alarm s1 d \<and> new_alarm s2 d)"
  proof
    assume both: "new_alarm s1 d \<and> new_alarm s2 d"
    let ?v = "dict_get (data_or_empty d) ALARM_FIELD"
    from both have "py_in ?v (match_values s1)" and "py_in ?v (match_values s2)"
      by (simp_all add: new_alarm_def Let_def)
    then obtain x y where "x \<in> set (match_values s1)" "?v = PStr x"
      "y \<in> set (match_values s2)" "?v = PStr y"
      by (auto simp: py_in_iff)
    then have "x \<in> set (fst (ALARM_MAP ! i)) \<inter> set (fst (ALARM_MAP ! j))"
      using assms(4,5) by simp
    with disj show False by simp
  qed
  with disj show ?thesis by simp
qed

theorem alarm_categories_disjoint_witness:
  "(2::nat) < length ALARM_MAP \<and> (3::nat) < length ALARM_MAP \<and> (2::nat) \<noteq> 3
   \<and> set (fst (ALARM_MAP ! 2)) \<inter> set (fst (ALARM_MAP ! 3)) = {}
   \<and> new_alarm (Hp7BinaryAlarm_init (fst (ALARM_MAP ! 2)))
        (doorbell_snapshot (PStr ''2024-01-01 10:00:00''))
   \<and> \<not> new_alarm (Hp7BinaryAlarm_init (fst (ALARM_MAP ! 3)))
        (doorbell_snapshot (PStr ''2024-01-01 10:00:00''))"
proof -
  let ?d = "doorbell_snapshot (PStr ''2024-01-01 10:00:00'')"
  let ?s1 = "Hp7BinaryAlarm_init (fst (ALARM_MAP ! 2))"
  let ?s2 = "Hp7BinaryAlarm_init (fst (ALARM_MAP ! 3))"
  have h: "(2::nat) < length ALARM_MAP" "(3::nat) < length ALARM_MAP" "(2::nat) \<noteq> 3"
    by (simp_all add: ALARM_MAP_def)
  have m: "match_values ?s1 = fst (ALARM_MAP ! 2)" "match_values ?s2 = fst (ALARM_MAP ! 3)"
    by (simp_all add: Hp7BinaryAlarm_init_def)
  have on: "new_alarm ?s1 ?d"
    by code_simp
  from alarm_categories_disjoint [OF h m, of ?d] h on show ?thesis
    by blast
qed


end
